theory Spec2Isabelle
  imports Main "HOL-Library.Word"
begin

section \<open>Field elements and the Pedersen hash\<close>

text \<open>
  The packages \<^verbatim>\<open>core/felt\<close>, \<open>core/crypto\<close>, \<open>core/trie\<close> and \<open>utils\<close> are used by
  \<^verbatim>\<open>core/transaction.go\<close> but their code is not part of the files at hand. A field element
  is represented by its canonical residue, a natural number below the StarkNet prime.
  The two-input Pedersen hash (\<^verbatim>\<open>crypto.Pedersen\<close>) is an elliptic-curve computation; every
  definition below that hashes takes it as the parameter \<open>P\<close>.
\<close>

type_synonym felt = nat

definition felt_prime :: nat where
  "felt_prime = 2 ^ 251 + 17 * 2 ^ 192 + 1"

text \<open>
  Modelled from the spec: \<^verbatim>\<open>felt.SetBytes\<close> is missing; the spec says
  "fromBytes(bytes): big-endian, reduces modulo p".
\<close>

definition SetBytes :: "string \<Rightarrow> felt" where
  "SetBytes bs = foldl (\<lambda>acc c. acc * 256 + of_char c) 0 bs mod felt_prime"

text \<open>
  Modelled from the spec: \<^verbatim>\<open>felt.SetUint64\<close> is missing; the spec names it
  "fromUint64(n)". A 64-bit value is below the prime, so it is its own residue.
\<close>

definition SetUint64 :: "64 word \<Rightarrow> felt" where
  "SetUint64 w = unat w"

definition IsZero :: "felt \<Rightarrow> bool" where
  "IsZero x = (x = 0)"

definition IsOne :: "felt \<Rightarrow> bool" where
  "IsOne x = (x = 1)"

definition Equal :: "felt \<Rightarrow> felt \<Rightarrow> bool" where
  "Equal x y = (x = y)"

text \<open>
  Modelled from the spec: \<^verbatim>\<open>crypto.PedersenArray\<close> is missing; the spec defines it as
  "a left fold acc <- pedersen(acc, x_i) starting from acc = 0, then finally
  acc <- pedersen(acc, n) with n the element count as a field element".
\<close>

definition PedersenArray :: "(felt \<Rightarrow> felt \<Rightarrow> felt) \<Rightarrow> felt list \<Rightarrow> felt" where
  "PedersenArray P xs = P (foldl P 0 xs) (length xs)"

text \<open>
  Modelled from the spec: \<^verbatim>\<open>utils.Network\<close> and its method \<^verbatim>\<open>ChainID\<close> are missing; the
  spec gives the chain identifiers as the "field-element bytes of the ASCII strings"
  SN_MAIN, SN_GOERLI, SN_GOERLI2 and SN_INTEGRATION.
\<close>

datatype Network = MAINNET | GOERLI | GOERLI2 | INTEGRATION

fun ChainID :: "Network \<Rightarrow> felt" where
  "ChainID MAINNET = SetBytes ''SN_MAIN''"
| "ChainID GOERLI = SetBytes ''SN_GOERLI''"
| "ChainID GOERLI2 = SetBytes ''SN_GOERLI2''"
| "ChainID INTEGRATION = SetBytes ''SN_INTEGRATION''"

text \<open>
  A stand-in for the hash parameter, used only where a statement is evaluated at a
  concrete input.
\<close>

definition sample_hash :: "felt \<Rightarrow> felt \<Rightarrow> felt" where
  "sample_hash a b = (3 * a + b + 1) mod felt_prime"

section \<open>Transactions (core/transaction.go)\<close>

text \<open>
  Each Go struct is a record with the fields of the struct, in its order. Pointers to
  field elements are taken to be non-nil, except \<open>Nonce\<close> of an L1 handler transaction,
  which the code tests against \<^verbatim>\<open>nil\<close>. \<open>DeployAccountTransaction\<close> embeds
  \<open>DeployTransaction\<close>, which is a record extension here.
\<close>

record DeployTransaction =
  TransactionHash :: felt
  ContractAddressSalt :: felt
  ContractAddress :: felt
  ClassHash :: felt
  ConstructorCallData :: "felt list"
  Version :: felt

record DeployAccountTransaction = DeployTransaction +
  MaxFee :: felt
  TransactionSignature :: "felt list"
  Nonce :: felt

record InvokeTransaction =
  TransactionHash :: felt
  CallData :: "felt list"
  TransactionSignature :: "felt list"
  MaxFee :: felt
  ContractAddress :: felt
  Version :: felt
  EntryPointSelector :: felt
  Nonce :: felt
  SenderAddress :: felt

record DeclareTransaction =
  TransactionHash :: felt
  ClassHash :: felt
  SenderAddress :: felt
  MaxFee :: felt
  TransactionSignature :: "felt list"
  Nonce :: felt
  Version :: felt
  CompiledClassHash :: felt

record L1HandlerTransaction =
  TransactionHash :: felt
  ContractAddress :: felt
  EntryPointSelector :: felt
  Nonce :: "felt option"
  CallData :: "felt list"
  Version :: felt

text \<open>
  The interface \<open>Transaction\<close> with its five implementations is a tagged union; the
  constructor is the dynamic type that the type switches of the code look at.
\<close>

datatype Transaction =
  Deploy DeployTransaction
| DeployAccount DeployAccountTransaction
| Declare DeclareTransaction
| Invoke InvokeTransaction
| L1Handler L1HandlerTransaction

fun Hash :: "Transaction \<Rightarrow> felt" where
  "Hash (Deploy d) = DeployTransaction.TransactionHash d"
| "Hash (DeployAccount d) = DeployTransaction.TransactionHash d"
| "Hash (Declare d) = DeclareTransaction.TransactionHash d"
| "Hash (Invoke i) = InvokeTransaction.TransactionHash i"
| "Hash (L1Handler l) = L1HandlerTransaction.TransactionHash l"

fun Signature :: "Transaction \<Rightarrow> felt list" where
  "Signature (Deploy d) = []"
| "Signature (DeployAccount d) = DeployAccountTransaction.TransactionSignature d"
| "Signature (Declare d) = DeclareTransaction.TransactionSignature d"
| "Signature (Invoke i) = InvokeTransaction.TransactionSignature i"
| "Signature (L1Handler l) = []"

definition invokeFelt :: felt where
  "invokeFelt = SetBytes ''invoke''"

definition declareFelt :: felt where
  "declareFelt = SetBytes ''declare''"

definition l1HandlerFelt :: felt where
  "l1HandlerFelt = SetBytes ''l1_handler''"

definition deployAccountFelt :: felt where
  "deployAccountFelt = SetBytes ''deploy_account''"

text \<open>
  The errors of hashing. \<^verbatim>\<open>errInvalidTransactionVersion\<close> formats the dynamic type of the
  transaction and the version into a message; the error value keeps both.
\<close>

datatype TransactionType =
  DeployTransactionT
| DeployAccountTransactionT
| DeclareTransactionT
| InvokeTransactionT
| L1HandlerTransactionT

fun TypeOf :: "Transaction \<Rightarrow> TransactionType" where
  "TypeOf (Deploy d) = DeployTransactionT"
| "TypeOf (DeployAccount d) = DeployAccountTransactionT"
| "TypeOf (Declare d) = DeclareTransactionT"
| "TypeOf (Invoke i) = InvokeTransactionT"
| "TypeOf (L1Handler l) = L1HandlerTransactionT"

datatype hash_error =
  InvalidTransactionVersion TransactionType felt
| UnknownTransaction

definition errInvalidTransactionVersion :: "Transaction \<Rightarrow> felt \<Rightarrow> hash_error" where
  "errInvalidTransactionVersion t version = InvalidTransactionVersion (TypeOf t) version"

definition invokeTransactionHash ::
  "(felt \<Rightarrow> felt \<Rightarrow> felt) \<Rightarrow> InvokeTransaction \<Rightarrow> Network \<Rightarrow> hash_error + felt" where
  "invokeTransactionHash P i n =
     (if IsZero (InvokeTransaction.Version i) then Inr (InvokeTransaction.TransactionHash i)
      else if IsOne (InvokeTransaction.Version i) then
        Inr (PedersenArray P
          [invokeFelt,
           InvokeTransaction.Version i,
           InvokeTransaction.SenderAddress i,
           0,
           PedersenArray P (InvokeTransaction.CallData i),
           InvokeTransaction.MaxFee i,
           ChainID n,
           InvokeTransaction.Nonce i])
      else Inl (errInvalidTransactionVersion (Invoke i) (InvokeTransaction.Version i)))"

definition declareTransactionHash ::
  "(felt \<Rightarrow> felt \<Rightarrow> felt) \<Rightarrow> DeclareTransaction \<Rightarrow> Network \<Rightarrow> hash_error + felt" where
  "declareTransactionHash P d n =
     (if IsZero (DeclareTransaction.Version d) then Inr (DeclareTransaction.TransactionHash d)
      else if IsOne (DeclareTransaction.Version d) then
        Inr (PedersenArray P
          [declareFelt,
           DeclareTransaction.Version d,
           DeclareTransaction.SenderAddress d,
           0,
           PedersenArray P [DeclareTransaction.ClassHash d],
           DeclareTransaction.MaxFee d,
           ChainID n,
           DeclareTransaction.Nonce d])
      else if Equal (DeclareTransaction.Version d) (SetUint64 2) then
        Inr (PedersenArray P
          [declareFelt,
           DeclareTransaction.Version d,
           DeclareTransaction.SenderAddress d,
           0,
           PedersenArray P [DeclareTransaction.ClassHash d],
           DeclareTransaction.MaxFee d,
           ChainID n,
           DeclareTransaction.Nonce d,
           DeclareTransaction.CompiledClassHash d])
      else Inl (errInvalidTransactionVersion (Declare d) (DeclareTransaction.Version d)))"

definition l1HandlerTransactionHash ::
  "(felt \<Rightarrow> felt \<Rightarrow> felt) \<Rightarrow> L1HandlerTransaction \<Rightarrow> Network \<Rightarrow> hash_error + felt" where
  "l1HandlerTransactionHash P l n =
     (if IsZero (L1HandlerTransaction.Version l) then
        (case L1HandlerTransaction.Nonce l of
           None \<Rightarrow> Inr (L1HandlerTransaction.TransactionHash l)
         | Some nonce \<Rightarrow>
             Inr (PedersenArray P
               [l1HandlerFelt,
                L1HandlerTransaction.Version l,
                L1HandlerTransaction.ContractAddress l,
                L1HandlerTransaction.EntryPointSelector l,
                PedersenArray P (L1HandlerTransaction.CallData l),
                0,
                ChainID n,
                nonce]))
      else Inl (errInvalidTransactionVersion (L1Handler l) (L1HandlerTransaction.Version l)))"

definition deployAccountTransactionHash ::
  "(felt \<Rightarrow> felt \<Rightarrow> felt) \<Rightarrow> DeployAccountTransaction \<Rightarrow> Network \<Rightarrow> hash_error + felt" where
  "deployAccountTransactionHash P d n =
     (let callData = [DeployTransaction.ClassHash d, DeployTransaction.ContractAddressSalt d]
                     @ DeployTransaction.ConstructorCallData d
      in if IsOne (DeployTransaction.Version d) then
           Inr (PedersenArray P
             [deployAccountFelt,
              DeployTransaction.Version d,
              DeployTransaction.ContractAddress d,
              0,
              PedersenArray P callData,
              DeployAccountTransaction.MaxFee d,
              ChainID n,
              DeployAccountTransaction.Nonce d])
         else Inl (errInvalidTransactionVersion (DeployAccount d) (DeployTransaction.Version d)))"

text \<open>
  The type switch of \<^verbatim>\<open>transactionHash\<close>. Its \<^verbatim>\<open>default\<close> branch ("unknown transaction",
  \<open>UnknownTransaction\<close> above) is taken by no value of the five types.
\<close>

fun transactionHash ::
  "(felt \<Rightarrow> felt \<Rightarrow> felt) \<Rightarrow> Transaction \<Rightarrow> Network \<Rightarrow> hash_error + felt" where
  "transactionHash P (Declare t) n = declareTransactionHash P t n"
| "transactionHash P (Invoke t) n = invokeTransactionHash P t n"
| "transactionHash P (Deploy t) n = Inr (DeployTransaction.TransactionHash t)"
| "transactionHash P (L1Handler t) n = l1HandlerTransactionHash P t n"
| "transactionHash P (DeployAccount t) n = deployAccountTransactionHash P t n"

subsection \<open>The chained verification error\<close>

datatype CantVerifyTransactionHashError =
  CantVerifyTransactionHashError
    (t: Transaction)
    (hashFailure: "hash_error option")
    (next_error: "CantVerifyTransactionHashError option")

text \<open>\<open>next_error\<close> is the field \<^verbatim>\<open>next\<close> of the struct.\<close>

definition Unwrap :: "CantVerifyTransactionHashError \<Rightarrow> CantVerifyTransactionHashError option" where
  "Unwrap e = (case next_error e of Some e' \<Rightarrow> Some e' | None \<Rightarrow> None)"

definition verifyTransactionHash ::
  "(felt \<Rightarrow> felt \<Rightarrow> felt) \<Rightarrow> Transaction \<Rightarrow> Network \<Rightarrow> CantVerifyTransactionHashError option" where
  "verifyTransactionHash P tx n =
     (case transactionHash P tx n of
        Inl err \<Rightarrow> Some (CantVerifyTransactionHashError tx (Some err) None)
      | Inr calculatedTxHash \<Rightarrow>
          if \<not> Equal calculatedTxHash (Hash tx)
          then Some (CantVerifyTransactionHashError tx None None)
          else None)"

text \<open>The loop of \<^verbatim>\<open>verifyTransactions\<close>, with the variable \<^verbatim>\<open>head\<close> as accumulator.\<close>

fun verifyTransactions_loop ::
  "(felt \<Rightarrow> felt \<Rightarrow> felt) \<Rightarrow> Transaction list \<Rightarrow> Network \<Rightarrow>
   CantVerifyTransactionHashError option \<Rightarrow> CantVerifyTransactionHashError option" where
  "verifyTransactions_loop P [] n head = head"
| "verifyTransactions_loop P (tx # txs) n head =
     (case verifyTransactionHash P tx n of
        Some err \<Rightarrow>
          verifyTransactions_loop P txs n
            (Some (CantVerifyTransactionHashError (t err) (hashFailure err) head))
      | None \<Rightarrow> verifyTransactions_loop P txs n head)"

definition verifyTransactions ::
  "(felt \<Rightarrow> felt \<Rightarrow> felt) \<Rightarrow> Transaction list \<Rightarrow> Network \<Rightarrow>
   CantVerifyTransactionHashError option" where
  "verifyTransactions P txs n = verifyTransactions_loop P txs n None"

text \<open>
  Walking the chain with \<open>Unwrap\<close>: the number of its nodes, and the transactions the
  nodes carry, from the head on.
\<close>

fun chain_length :: "CantVerifyTransactionHashError \<Rightarrow> nat" where
  "chain_length (CantVerifyTransactionHashError tx f None) = 1"
| "chain_length (CantVerifyTransactionHashError tx f (Some e)) = Suc (chain_length e)"

fun chain_transactions :: "CantVerifyTransactionHashError \<Rightarrow> Transaction list" where
  "chain_transactions (CantVerifyTransactionHashError tx f None) = [tx]"
| "chain_transactions (CantVerifyTransactionHashError tx f (Some e)) = tx # chain_transactions e"

text \<open>
  \<open>Unwrap_times k e\<close> is the error reached from \<open>e\<close> by \<open>k\<close> applications of \<open>Unwrap\<close>,
  and \<open>None\<close> when \<open>Unwrap\<close> has returned nil before.
\<close>

fun Unwrap_times :: "nat \<Rightarrow> CantVerifyTransactionHashError \<Rightarrow> CantVerifyTransactionHashError option" where
  "Unwrap_times 0 e = Some e"
| "Unwrap_times (Suc k) e =
     (case Unwrap e of None \<Rightarrow> None | Some e' \<Rightarrow> Unwrap_times k e')"

text \<open>
  In the words of the spec: a transaction mismatches when its recomputed hash differs
  from the declared one, or when hashing it failed.
\<close>

definition mismatch :: "(felt \<Rightarrow> felt \<Rightarrow> felt) \<Rightarrow> Network \<Rightarrow> Transaction \<Rightarrow> bool" where
  "mismatch P n tx =
     (case transactionHash P tx n of Inl err \<Rightarrow> True | Inr h \<Rightarrow> h \<noteq> Hash tx)"

subsection \<open>The transaction commitment\<close>

text \<open>
  Modelled from the spec: the package \<^verbatim>\<open>core/trie\<close> is missing. The spec describes
  \<^verbatim>\<open>RunOnTempTrie\<close> as "provides a scoped empty trie to body", \<^verbatim>\<open>Put\<close> as "insert or
  overwrite", which may fail, and \<^verbatim>\<open>Root\<close> as the hash of the tree. The trie is a
  parameter: \<open>newTrie\<close> makes the empty trie of a height, \<open>put\<close> returns the trie after
  the insertion or an error (the previous value, which the code drops, is left out),
  \<open>root\<close> returns the root or an error.
\<close>

definition RunOnTempTrie :: "(nat \<Rightarrow> 'trie) \<Rightarrow> nat \<Rightarrow> ('trie \<Rightarrow> 'r) \<Rightarrow> 'r" where
  "RunOnTempTrie newTrie height body = body (newTrie height)"

definition commitmentTrieHeight :: nat where
  "commitmentTrieHeight = 64"

text \<open>
  The loop of \<^verbatim>\<open>transactionCommitment\<close>; \<open>i\<close> is the index of the range loop, converted
  by \<^verbatim>\<open>uint64(i)\<close>.
\<close>

fun transactionCommitment_loop ::
  "(felt \<Rightarrow> felt \<Rightarrow> felt) \<Rightarrow> ('trie \<Rightarrow> felt \<Rightarrow> felt \<Rightarrow> string + 'trie) \<Rightarrow> 'trie \<Rightarrow> nat \<Rightarrow>
   Transaction list \<Rightarrow> string + 'trie" where
  "transactionCommitment_loop P put trie i [] = Inr trie"
| "transactionCommitment_loop P put trie i (transaction # rest) =
     (let signatureHash =
            (case transaction of
               Invoke itx \<Rightarrow> PedersenArray P (Signature transaction)
             | _ \<Rightarrow> PedersenArray P [])
      in case put trie (SetUint64 (word_of_nat i)) (P (Hash transaction) signatureHash) of
           Inl err \<Rightarrow> Inl err
         | Inr trie' \<Rightarrow> transactionCommitment_loop P put trie' (Suc i) rest)"

definition transactionCommitment ::
  "(felt \<Rightarrow> felt \<Rightarrow> felt) \<Rightarrow> (nat \<Rightarrow> 'trie) \<Rightarrow> ('trie \<Rightarrow> felt \<Rightarrow> felt \<Rightarrow> string + 'trie) \<Rightarrow>
   ('trie \<Rightarrow> string + felt) \<Rightarrow> Transaction list \<Rightarrow> string + felt" where
  "transactionCommitment P newTrie put root transactions =
     RunOnTempTrie newTrie commitmentTrieHeight
       (\<lambda>trie. case transactionCommitment_loop P put trie 0 transactions of
                  Inl err \<Rightarrow> Inl err
                | Inr trie' \<Rightarrow> root trie')"

text \<open>
  In the words of the spec: for index \<open>i\<close> the key is \<open>fromUint64(i)\<close> and the value is
  \<open>pedersen(tx.hash(), sigHash)\<close>, where \<open>sigHash\<close> is the array hash of the signature
  for an Invoke transaction and the array hash of no elements for every other one.
\<close>

definition sigHash :: "(felt \<Rightarrow> felt \<Rightarrow> felt) \<Rightarrow> Transaction \<Rightarrow> felt" where
  "sigHash P tx =
     (case tx of
        Invoke itx \<Rightarrow> PedersenArray P (InvokeTransaction.TransactionSignature itx)
      | Deploy d \<Rightarrow> PedersenArray P []
      | DeployAccount d \<Rightarrow> PedersenArray P []
      | Declare d \<Rightarrow> PedersenArray P []
      | L1Handler l \<Rightarrow> PedersenArray P [])"

definition commitment_entries ::
  "(felt \<Rightarrow> felt \<Rightarrow> felt) \<Rightarrow> Transaction list \<Rightarrow> (felt \<times> felt) list" where
  "commitment_entries P txs =
     map (\<lambda>i. (SetUint64 (word_of_nat i), P (Hash (txs ! i)) (sigHash P (txs ! i))))
       [0 ..< length txs]"

text \<open>Inserting a list of entries in order, stopping at the first insertion that fails.\<close>

fun put_entries ::
  "('trie \<Rightarrow> felt \<Rightarrow> felt \<Rightarrow> string + 'trie) \<Rightarrow> 'trie \<Rightarrow> (felt \<times> felt) list \<Rightarrow> string + 'trie" where
  "put_entries put trie [] = Inr trie"
| "put_entries put trie ((k, v) # rest) =
     (case put trie k v of Inl err \<Rightarrow> Inl err | Inr trie' \<Rightarrow> put_entries put trie' rest)"

text \<open>A trie that only records the insertions made, for evaluation.\<close>

definition record_put :: "(felt \<times> felt) list \<Rightarrow> felt \<Rightarrow> felt \<Rightarrow> string + (felt \<times> felt) list" where
  "record_put log k v = Inr (log @ [(k, v)])"

section \<open>The JSON-RPC dispatcher (jsonrpc/server.go)\<close>

subsection \<open>JSON values and Go values\<close>

text \<open>
  The server reads its requests with \<^verbatim>\<open>encoding/json\<close> of the Go library, with
  \<^verbatim>\<open>UseNumber\<close>. A JSON value is a value of \<open>json\<close>; a number keeps its literal text. A Go
  value of type \<^verbatim>\<open>any\<close> that the decoder made is represented by the JSON value it was
  made from: \<^verbatim>\<open>nil\<close> for \<open>JNull\<close>, a \<^verbatim>\<open>bool\<close>, a \<^verbatim>\<open>json.Number\<close>, a \<^verbatim>\<open>string\<close>, a
  \<^verbatim>\<open>[]any\<close> for an array and a \<^verbatim>\<open>map[string]any\<close> for an object, in which a repeated
  key holds its last value.
\<close>

datatype json =
  JNull
| JBool bool
| JNumber string
| JString string
| JArray "json list"
| JObject "(string \<times> json) list"

text \<open>
  The kind and the type name that \<^verbatim>\<open>reflect.TypeOf\<close> reports for such a Go value
  (\<^verbatim>\<open>json.Number\<close> is a string type named \<open>Number\<close>). A nil value has no type; the
  code asks for the type only after it has tested the value against \<^verbatim>\<open>nil\<close>, and
  \<open>Invalid\<close> and the empty name stand for the missing type.
\<close>

datatype kind = Invalid | Bool | String | Slice | Map

fun Kind :: "json \<Rightarrow> kind" where
  "Kind (JBool b) = Bool"
| "Kind (JNumber n) = String"
| "Kind (JString s) = String"
| "Kind (JArray xs) = Slice"
| "Kind (JObject kvs) = Map"
| "Kind JNull = Invalid"

fun TypeName :: "json \<Rightarrow> string" where
  "TypeName (JBool b) = ''bool''"
| "TypeName (JNumber n) = ''Number''"
| "TypeName (JString s) = ''string''"
| "TypeName (JArray xs) = []"
| "TypeName (JObject kvs) = []"
| "TypeName JNull = []"

text \<open>A computation that may panic.\<close>

datatype 'a go = Panic string | Done 'a

subsection \<open>Requests, responses, errors\<close>

definition InvalidJSON :: int where
  "InvalidJSON = - 32700"

definition InvalidRequest :: int where
  "InvalidRequest = - 32600"

definition MethodNotFound :: int where
  "MethodNotFound = - 32601"

definition InvalidParams :: int where
  "InvalidParams = - 32602"

definition InternalError :: int where
  "InternalError = - 32603"

record request =
  Version :: string
  Method :: string
  Params :: json
  ID :: json

record Error =
  Code :: int
  Message :: string
  Data :: json

record response =
  Version :: string
  Result :: json
  Error :: "Error option"
  ID :: json

definition rpcErr :: "int \<Rightarrow> json \<Rightarrow> Error" where
  "rpcErr code data =
     (if code = InvalidJSON then
        \<lparr>Code = InvalidJSON, Message = ''Parse error'', Data = data\<rparr>
      else if code = InvalidRequest then
        \<lparr>Code = InvalidRequest, Message = ''Invalid Request'', Data = data\<rparr>
      else if code = MethodNotFound then
        \<lparr>Code = MethodNotFound, Message = ''Method Not Found'', Data = data\<rparr>
      else if code = InvalidParams then
        \<lparr>Code = InvalidParams, Message = ''Invalid Params'', Data = data\<rparr>
      else
        \<lparr>Code = InternalError, Message = ''Internal Error'', Data = data\<rparr>)"

text \<open>
  The errors that \<^verbatim>\<open>isSane\<close> returns. \<open>ErrInvalidID\<close> is the package variable that
  \<^verbatim>\<open>errors.Is\<close> later compares with; the other three are made by \<^verbatim>\<open>errors.New\<close> in place.
\<close>

datatype request_error =
  UnsupportedVersion
| NoMethodSpecified
| ParamsNotArrayOrObject
| ErrInvalidID

fun error_text :: "request_error \<Rightarrow> string" where
  "error_text UnsupportedVersion = ''unsupported RPC request version''"
| "error_text NoMethodSpecified = ''no method specified''"
| "error_text ParamsNotArrayOrObject = ''params should be an array or an object''"
| "error_text ErrInvalidID = ''id should be a string or an integer''"

definition isSane :: "request \<Rightarrow> request_error option" where
  "isSane r =
     (if request.Version r \<noteq> ''2.0'' then Some UnsupportedVersion
      else if request.Method r = [] then Some NoMethodSpecified
      else if request.Params r \<noteq> JNull
              \<and> Kind (request.Params r) \<noteq> Slice \<and> Kind (request.Params r) \<noteq> Map
      then Some ParamsNotArrayOrObject
      else if request.ID r \<noteq> JNull
              \<and> (let floating =
                        (TypeName (request.ID r) = ''Number''
                         \<and> (case request.ID r of JNumber n \<Rightarrow> CHR ''.'' \<in> set n | _ \<Rightarrow> False))
                  in (Kind (request.ID r) \<noteq> String \<and> TypeName (request.ID r) \<noteq> ''Number'')
                     \<or> floating)
      then Some ErrInvalidID
      else None)"

subsection \<open>Methods, handlers and the server\<close>

text \<open>
  A handler is a Go function that the server calls by reflection. A parameter type of
  the handler is represented by what the code does with it: \<open>unmarshal\<close> is the
  conversion of \<^verbatim>\<open>handlerParamValue\<close> (marshal the decoded value again, unmarshal it into
  a new value of the type), which may fail, and \<open>zero\<close> is the zero value of the type.
  \<open>IsFunc\<close>, \<open>In\<close>, \<open>NumOut\<close> and \<open>Out1IsError\<close> are what \<^verbatim>\<open>RegisterMethod\<close> reads of the
  type of the handler; \<open>fn\<close> is the function itself, which returns the two values that
  the server reads. Variadic handlers are not modelled.
\<close>

record 'v rtype =
  unmarshal :: "json \<Rightarrow> string + 'v"
  zero :: 'v

record 'v handler =
  IsFunc :: bool
  In :: "'v rtype list"
  NumOut :: nat
  Out1IsError :: bool
  fn :: "'v list \<Rightarrow> json \<times> Error option"

definition NumIn :: "'v handler \<Rightarrow> nat" where
  "NumIn h = length (In h)"

record Parameter =
  Name :: string
  Optional :: bool

record 'v Method =
  Name :: string
  Params :: "Parameter list"
  Handler :: "'v handler"

record 'v Server =
  methods :: "string \<rightharpoonup> 'v Method"

definition NewServer :: "'v Server" where
  "NewServer = \<lparr>methods = Map.empty\<rparr>"

definition RegisterMethod :: "'v Server \<Rightarrow> 'v Method \<Rightarrow> string + 'v Server" where
  "RegisterMethod s method =
     (let handlerT = Handler method
      in if \<not> IsFunc handlerT then Inl ''handler must be a function''
         else if NumIn handlerT \<noteq> length (Method.Params method)
           then Inl ''number of function params and param names must match''
         else if NumOut handlerT \<noteq> 2 then Inl ''handler must return 2 values''
         else if \<not> Out1IsError handlerT then Inl ''second return value must be a *jsonrpc.Error''
         else Inr (s\<lparr>methods := (methods s)(Method.Name method \<mapsto> method)\<rparr>))"

text \<open>
  \<^verbatim>\<open>reflect.Value.Call\<close> panics when the number of arguments is not the number of
  parameters of the function.
\<close>

definition Call :: "'v handler \<Rightarrow> 'v list \<Rightarrow> (json \<times> Error option) go" where
  "Call h args =
     (if length args < NumIn h then Panic ''reflect: Call with too few input arguments''
      else if NumIn h < length args then Panic ''reflect: Call with too many input arguments''
      else Done (fn h args))"

text \<open>
  \<^verbatim>\<open>isNil\<close> on the parameters of a request: \<^verbatim>\<open>reflect.Value.IsNil\<close> panics for a value
  that is neither a slice nor a map (nor of another kind that can be nil). A decoded
  array or object is never a nil slice or map.
\<close>

fun isNil :: "json \<Rightarrow> bool go" where
  "isNil JNull = Done True"
| "isNil (JArray xs) = Done False"
| "isNil (JObject kvs) = Done False"
| "isNil (JBool b) = Panic ''reflect: call of reflect.Value.IsNil on bool Value''"
| "isNil (JNumber n) = Panic ''reflect: call of reflect.Value.IsNil on string Value''"
| "isNil (JString s) = Panic ''reflect: call of reflect.Value.IsNil on string Value''"

definition handlerParamValue :: "json \<Rightarrow> 'v rtype \<Rightarrow> string + 'v" where
  "handlerParamValue param ty = unmarshal ty param"

text \<open>
  The two loops of \<^verbatim>\<open>buildArguments\<close>, with the index \<open>i\<close> and the slice \<open>args\<close>.
  \<^verbatim>\<open>handlerType.In(i)\<close> indexes the parameter types of the function and panics with
  the index error of the runtime when \<open>i\<close> is not below their number.
\<close>

fun buildArguments_list ::
  "'v handler \<Rightarrow> nat \<Rightarrow> json list \<Rightarrow> 'v list \<Rightarrow> (string + 'v list) go" where
  "buildArguments_list h i [] args = Done (Inr args)"
| "buildArguments_list h i (param # rest) args =
     (if i < NumIn h then
        (case handlerParamValue param (In h ! i) of
           Inl err \<Rightarrow> Done (Inl err)
         | Inr v \<Rightarrow> buildArguments_list h (Suc i) rest (args @ [v]))
      else Panic ''runtime error: index out of range'')"

fun buildArguments_map ::
  "'v handler \<Rightarrow> (string \<rightharpoonup> json) \<Rightarrow> nat \<Rightarrow> Parameter list \<Rightarrow> 'v list \<Rightarrow> (string + 'v list) go" where
  "buildArguments_map h paramsMap i [] args = Done (Inr args)"
| "buildArguments_map h paramsMap i (configuredParam # rest) args =
     (case paramsMap (Parameter.Name configuredParam) of
        Some param \<Rightarrow>
          (if i < NumIn h then
             (case handlerParamValue param (In h ! i) of
                Inl err \<Rightarrow> Done (Inl err)
              | Inr v \<Rightarrow> buildArguments_map h paramsMap (Suc i) rest (args @ [v]))
           else Panic ''runtime error: index out of range'')
      | None \<Rightarrow>
          (if Optional configuredParam then
             (if i < NumIn h then
                buildArguments_map h paramsMap (Suc i) rest (args @ [zero (In h ! i)])
              else Panic ''runtime error: index out of range'')
           else Done (Inl ''missing non-optional param'')))"

definition buildArguments ::
  "json \<Rightarrow> 'v handler \<Rightarrow> Parameter list \<Rightarrow> (string + 'v list) go" where
  "buildArguments params h configuredParams =
     (case isNil params of
        Panic msg \<Rightarrow> Panic msg
      | Done True \<Rightarrow> Done (Inr [])
      | Done False \<Rightarrow>
          (case params of
             JArray paramsList \<Rightarrow>
               if length paramsList \<noteq> NumIn h
               then Done (Inl ''missing/unexpected params in list'')
               else buildArguments_list h 0 paramsList []
           | JObject kvs \<Rightarrow> buildArguments_map h (map_of (rev kvs)) 0 configuredParams []
           | _ \<Rightarrow> Done (Inl ''impossible param type: check request.isSane'')))"

text \<open>
  \<^verbatim>\<open>handleRequest\<close> returns a response, or no response (\<open>None\<close>, the nil pointer), or
  the error of the sanity check. The second value of the handler is a pointer to an
  \<open>Error\<close>, \<open>None\<close> when it is nil.
\<close>

definition handleRequest :: "'v Server \<Rightarrow> request \<Rightarrow> (request_error + response option) go" where
  "handleRequest s req =
     (case isSane req of
        Some err \<Rightarrow> Done (Inl err)
      | None \<Rightarrow>
          (let res = \<lparr>response.Version = ''2.0'', Result = JNull, Error = None,
                      ID = request.ID req\<rparr>
           in case methods s (request.Method req) of
                None \<Rightarrow> Done (Inr (Some (res\<lparr>Error := Some (rpcErr MethodNotFound JNull)\<rparr>)))
              | Some calledMethod \<Rightarrow>
                  (case buildArguments (request.Params req) (Handler calledMethod)
                          (Method.Params calledMethod) of
                     Panic msg \<Rightarrow> Panic msg
                   | Done (Inl err) \<Rightarrow>
                       Done (Inr (Some (res\<lparr>Error := Some (rpcErr InvalidParams (JString err))\<rparr>)))
                   | Done (Inr args) \<Rightarrow>
                       (case Call (Handler calledMethod) args of
                          Panic msg \<Rightarrow> Panic msg
                        | Done tuple \<Rightarrow>
                            if response.ID res = JNull then Done (Inr None)
                            else (case snd tuple of
                                    Some errAny \<Rightarrow> Done (Inr (Some (res\<lparr>Error := Some errAny\<rparr>)))
                                  | None \<Rightarrow> Done (Inr (Some (res\<lparr>Result := fst tuple\<rparr>))))))))"

subsection \<open>Decoding a request\<close>

text \<open>
  \<^verbatim>\<open>Decode\<close> of \<^verbatim>\<open>encoding/json\<close> into a new \<^verbatim>\<open>request\<close>, as the library documents it: the
  value \<^verbatim>\<open>null\<close> leaves the struct as it is; an object sets, member after member, the
  field whose name matches the key without regard to case (\<open>equalFold\<close> below);
  a member that matches no field is skipped; \<^verbatim>\<open>null\<close> leaves a string field unchanged
  and sets a field of type \<^verbatim>\<open>any\<close> to nil; a value of the wrong type for a string field
  is skipped and the first such error is returned at the end; any other JSON value
  cannot be decoded into a struct.
\<close>

definition to_lower :: "char \<Rightarrow> char" where
  "to_lower c =
     (let n = (of_char c :: nat) in if 65 \<le> n \<and> n \<le> 90 then char_of (n + 32) else c)"

text \<open>
  The library compares a key with a field name under simple Unicode case folding. The
  four field names are ASCII, and the only characters beyond ASCII that fold to an ASCII
  letter are the long s (U+017F, the bytes C5 BF in UTF-8), which folds to \<open>s\<close>, and the
  Kelvin sign (U+212A, the bytes E2 84 AA), which folds to \<open>k\<close>. \<open>foldName\<close> folds these
  two and the ASCII capital letters and keeps every other byte, which decides the
  comparison of any key with an ASCII name as the library does.
\<close>

fun foldName :: "string \<Rightarrow> string" where
  "foldName [] = []"
| "foldName [c] = [to_lower c]"
| "foldName [c1, c2] =
     (if c1 = CHR 0xC5 \<and> c2 = CHR 0xBF then [CHR ''s'']
      else to_lower c1 # foldName [c2])"
| "foldName (c1 # c2 # c3 # cs) =
     (if c1 = CHR 0xC5 \<and> c2 = CHR 0xBF then CHR ''s'' # foldName (c3 # cs)
      else if c1 = CHR 0xE2 \<and> c2 = CHR 0x84 \<and> c3 = CHR 0xAA then CHR ''k'' # foldName cs
      else to_lower c1 # foldName (c2 # c3 # cs))"

definition equalFold :: "string \<Rightarrow> string \<Rightarrow> bool" where
  "equalFold a b = (foldName a = foldName b)"

fun json_value_name :: "json \<Rightarrow> string" where
  "json_value_name JNull = ''null''"
| "json_value_name (JBool b) = ''bool''"
| "json_value_name (JNumber n) = ''number''"
| "json_value_name (JString s) = ''string''"
| "json_value_name (JArray xs) = ''array''"
| "json_value_name (JObject kvs) = ''object''"

definition field_type_error :: "json \<Rightarrow> string \<Rightarrow> string" where
  "field_type_error v field =
     ''json: cannot unmarshal '' @ json_value_name v @ '' into Go struct field request.''
       @ field @ '' of type string''"

definition saveError :: "string option \<Rightarrow> string \<Rightarrow> string option" where
  "saveError saved err = (case saved of None \<Rightarrow> Some err | Some first \<Rightarrow> Some first)"

definition zero_request :: request where
  "zero_request = \<lparr>request.Version = [], Method = [], Params = JNull, ID = JNull\<rparr>"

fun decode_member :: "request \<times> string option \<Rightarrow> string \<times> json \<Rightarrow> request \<times> string option" where
  "decode_member (r, saved) (key, v) =
     (if equalFold key ''jsonrpc'' then
        (case v of
           JString s \<Rightarrow> (r\<lparr>request.Version := s\<rparr>, saved)
         | JNull \<Rightarrow> (r, saved)
         | _ \<Rightarrow> (r, saveError saved (field_type_error v ''jsonrpc'')))
      else if equalFold key ''method'' then
        (case v of
           JString s \<Rightarrow> (r\<lparr>request.Method := s\<rparr>, saved)
         | JNull \<Rightarrow> (r, saved)
         | _ \<Rightarrow> (r, saveError saved (field_type_error v ''method'')))
      else if equalFold key ''params'' then (r\<lparr>request.Params := v\<rparr>, saved)
      else if equalFold key ''id'' then (r\<lparr>request.ID := v\<rparr>, saved)
      else (r, saved))"

definition decode_request :: "json \<Rightarrow> string + request" where
  "decode_request v =
     (case v of
        JNull \<Rightarrow> Inr zero_request
      | JObject members \<Rightarrow>
          (case foldl decode_member (zero_request, None) members of
             (r, None) \<Rightarrow> Inr r
           | (r, Some err) \<Rightarrow> Inl err)
      | _ \<Rightarrow>
          Inl (''json: cannot unmarshal '' @ json_value_name v
               @ '' into Go value of type jsonrpc.request''))"

subsection \<open>Handling the bytes of a request\<close>

text \<open>
  The bytes that \<^verbatim>\<open>HandleReader\<close> reads are represented by what \<^verbatim>\<open>isBatch\<close> and the
  decoder make of them: \<open>JSON v\<close> when they begin with the JSON value \<open>v\<close>, and
  \<open>NotJSON b err\<close> when they do not begin with a JSON value, where \<open>b\<close> says whether the
  first byte that is not white space is an opening bracket and \<open>err\<close> is the error of the
  decoder. A JSON value begins with an opening bracket exactly when it is an array,
  and each element of a decoded array of \<^verbatim>\<open>json.RawMessage\<close> is the text of a JSON value.
\<close>

datatype body = NotJSON bool string | JSON json

fun isBatch :: "body \<Rightarrow> bool" where
  "isBatch (NotJSON b err) = b"
| "isBatch (JSON (JArray xs)) = True"
| "isBatch (JSON v) = False"

text \<open>
  What \<^verbatim>\<open>HandleReader\<close> returns besides an error: no bytes, the bytes of one response
  object, or the bytes of an array of the responses. \<^verbatim>\<open>json.Marshal\<close> of a response is
  the parameter \<open>marshal\<close>; it fails when the result of a handler cannot be encoded.
\<close>

datatype 'b reply = NoBytes | Object 'b | Array "'b list"

text \<open>The body of the loop over a batch, up to the response object of the element.\<close>

definition batchElement :: "'v Server \<Rightarrow> json \<Rightarrow> response option go" where
  "batchElement s rawReq =
     (case decode_request rawReq of
        Inl jsonErr \<Rightarrow>
          Done (Some \<lparr>response.Version = ''2.0'', Result = JNull,
                       Error = Some (rpcErr InvalidRequest (JString jsonErr)), ID = JNull\<rparr>)
      | Inr req \<Rightarrow>
          (case handleRequest s req of
             Panic msg \<Rightarrow> Panic msg
           | Done (Inl handleErr) \<Rightarrow>
               Done (Some \<lparr>response.Version = ''2.0'', Result = JNull,
                            Error = Some (rpcErr InvalidRequest (JString (error_text handleErr))),
                            ID = (if handleErr \<noteq> ErrInvalidID then request.ID req else JNull)\<rparr>)
           | Done (Inr resObject) \<Rightarrow> Done resObject))"

fun HandleReader_batch ::
  "(response \<Rightarrow> string + 'b) \<Rightarrow> 'v Server \<Rightarrow> json list \<Rightarrow> 'b list \<Rightarrow> (string + 'b list) go" where
  "HandleReader_batch marshal s [] batchRes = Done (Inr batchRes)"
| "HandleReader_batch marshal s (rawReq # rest) batchRes =
     (case batchElement s rawReq of
        Panic msg \<Rightarrow> Panic msg
      | Done None \<Rightarrow> HandleReader_batch marshal s rest batchRes
      | Done (Some resObject) \<Rightarrow>
          (case marshal resObject of
             Inl jsonErr \<Rightarrow> Done (Inl jsonErr)
           | Inr resArr \<Rightarrow> HandleReader_batch marshal s rest (batchRes @ [resArr])))"

definition marshal_response :: "(response \<Rightarrow> string + 'b) \<Rightarrow> response \<Rightarrow> (string + 'b reply) go" where
  "marshal_response marshal res =
     (case marshal res of Inl jsonErr \<Rightarrow> Done (Inl jsonErr) | Inr bytes \<Rightarrow> Done (Inr (Object bytes)))"

text \<open>
  The two calls of \<^verbatim>\<open>Decode\<close> on the reader: into a request, and into a slice of raw
  messages. The branches of \<open>decode_batch\<close> for a JSON value that is not an array are
  those of the library; \<open>HandleReader\<close> does not reach them, since it decodes a batch
  only when the bytes begin with an opening bracket.
\<close>

definition decode_single :: "body \<Rightarrow> string + request" where
  "decode_single reader =
     (case reader of NotJSON b jsonErr \<Rightarrow> Inl jsonErr | JSON v \<Rightarrow> decode_request v)"

definition decode_batch :: "body \<Rightarrow> string + json list" where
  "decode_batch reader =
     (case reader of
        NotJSON b jsonErr \<Rightarrow> Inl jsonErr
      | JSON v \<Rightarrow>
          (case v of
             JArray elems \<Rightarrow> Inr elems
           | JNull \<Rightarrow> Inr []
           | _ \<Rightarrow>
               Inl (''json: cannot unmarshal '' @ json_value_name v
                    @ '' into Go value of type []json.RawMessage'')))"

definition HandleReader ::
  "(response \<Rightarrow> string + 'b) \<Rightarrow> 'v Server \<Rightarrow> body \<Rightarrow> (string + 'b reply) go" where
  "HandleReader marshal s reader =
     (let requestIsBatch = isBatch reader;
          res = \<lparr>response.Version = ''2.0'', Result = JNull, Error = None, ID = JNull\<rparr>
      in if \<not> requestIsBatch then
           (case decode_single reader of
              Inl jsonErr \<Rightarrow>
                marshal_response marshal (res\<lparr>Error := Some (rpcErr InvalidJSON (JString jsonErr))\<rparr>)
            | Inr req \<Rightarrow>
                (case handleRequest s req of
                   Panic msg \<Rightarrow> Panic msg
                 | Done (Inl handleErr) \<Rightarrow>
                     marshal_response marshal
                       (res\<lparr>ID := (if handleErr \<noteq> ErrInvalidID then request.ID req else JNull),
                            Error := Some (rpcErr InvalidRequest (JString (error_text handleErr)))\<rparr>)
                 | Done (Inr None) \<Rightarrow> Done (Inr NoBytes)
                 | Done (Inr (Some resObject)) \<Rightarrow> marshal_response marshal resObject))
         else
           (case decode_batch reader of
              Inl batchJSONErr \<Rightarrow>
                marshal_response marshal
                  (res\<lparr>Error := Some (rpcErr InvalidJSON (JString batchJSONErr))\<rparr>)
            | Inr batchReq \<Rightarrow>
                if length batchReq = 0 then
                  marshal_response marshal
                    (res\<lparr>Error := Some (rpcErr InvalidRequest (JString ''empty batch''))\<rparr>)
                else
                  (case HandleReader_batch marshal s batchReq [] of
                     Panic msg \<Rightarrow> Panic msg
                   | Done (Inl jsonErr) \<Rightarrow> Done (Inl jsonErr)
                   | Done (Inr batchRes) \<Rightarrow>
                       if length batchRes = 0 then Done (Inr NoBytes)
                       else Done (Inr (Array batchRes)))))"

text \<open>A marshaller that never fails and keeps the response as it is, for evaluation.\<close>

definition marshal_id :: "response \<Rightarrow> string + response" where
  "marshal_id res = Inr res"

section \<open>Concrete inputs\<close>

text \<open>Transactions and a server at which the statements below are evaluated.\<close>

definition declare_v2_example :: DeclareTransaction where
  "declare_v2_example =
     \<lparr>DeclareTransaction.TransactionHash = 7, ClassHash = 2, SenderAddress = 1, MaxFee = 3,
      TransactionSignature = [8, 9], Nonce = 4, Version = 2, CompiledClassHash = 5\<rparr>"

definition declare_v3_example :: DeclareTransaction where
  "declare_v3_example =
     \<lparr>DeclareTransaction.TransactionHash = 11, ClassHash = 2, SenderAddress = 1, MaxFee = 3,
      TransactionSignature = [], Nonce = 4, Version = 3, CompiledClassHash = 5\<rparr>"

definition l1_handler_no_nonce :: L1HandlerTransaction where
  "l1_handler_no_nonce =
     \<lparr>L1HandlerTransaction.TransactionHash = 21, ContractAddress = 1, EntryPointSelector = 2,
      Nonce = None, CallData = [3, 4], Version = 0\<rparr>"

definition l1_handler_nonce :: L1HandlerTransaction where
  "l1_handler_nonce =
     \<lparr>L1HandlerTransaction.TransactionHash = 22, ContractAddress = 1, EntryPointSelector = 2,
      Nonce = Some 6, CallData = [3, 4], Version = 0\<rparr>"

definition l1_handler_v1 :: L1HandlerTransaction where
  "l1_handler_v1 =
     \<lparr>L1HandlerTransaction.TransactionHash = 23, ContractAddress = 1, EntryPointSelector = 2,
      Nonce = Some 6, CallData = [3, 4], Version = 1\<rparr>"

definition invoke_v0_example :: InvokeTransaction where
  "invoke_v0_example =
     \<lparr>InvokeTransaction.TransactionHash = 31, CallData = [1], TransactionSignature = [5, 6],
      MaxFee = 2, ContractAddress = 3, Version = 0, EntryPointSelector = 4, Nonce = 0,
      SenderAddress = 0\<rparr>"

definition invoke_v1_example :: InvokeTransaction where
  "invoke_v1_example =
     \<lparr>InvokeTransaction.TransactionHash = 32, CallData = [1], TransactionSignature = [5, 6],
      MaxFee = 2, ContractAddress = 3, Version = 1, EntryPointSelector = 0, Nonce = 1,
      SenderAddress = 9\<rparr>"

definition example_block :: "Transaction list" where
  "example_block =
     [Invoke invoke_v0_example, Declare declare_v3_example, L1Handler l1_handler_no_nonce,
      Invoke invoke_v1_example, L1Handler l1_handler_v1]"

text \<open>
  A parameter type that takes JSON strings, a handler of no parameter and a handler of
  one parameter of that type.
\<close>

definition string_type :: "json rtype" where
  "string_type =
     \<lparr>unmarshal =
        (\<lambda>v. case v of
               JString s \<Rightarrow> Inr (JString s)
             | JNull \<Rightarrow> Inr (JString [])
             | _ \<Rightarrow> Inl (''json: cannot unmarshal '' @ json_value_name v
                          @ '' into Go value of type string'')),
      zero = JString []\<rparr>"

definition chainId_method :: "json Method" where
  "chainId_method =
     \<lparr>Method.Name = ''starknet_chainId'', Params = [],
      Handler = \<lparr>IsFunc = True, In = [], NumOut = 2, Out1IsError = True,
                 fn = (\<lambda>args. (JString ''0x534e5f4d41494e'', None))\<rparr>\<rparr>"

definition getTransactionByHash_method :: "json Method" where
  "getTransactionByHash_method =
     \<lparr>Method.Name = ''starknet_getTransactionByHash'',
      Params = [\<lparr>Parameter.Name = ''transaction_hash'', Optional = False\<rparr>],
      Handler = \<lparr>IsFunc = True, In = [string_type], NumOut = 2, Out1IsError = True,
                 fn = (\<lambda>args. (JArray args, None))\<rparr>\<rparr>"

definition example_server :: "json Server" where
  "example_server =
     \<lparr>methods = [''starknet_chainId'' \<mapsto> chainId_method,
                 ''starknet_getTransactionByHash'' \<mapsto> getTransactionByHash_method]\<rparr>"

text \<open>Requests, as the JSON values that the decoder reads.\<close>

definition chainId_notification :: json where
  "chainId_notification =
     JObject [(''jsonrpc'', JString ''2.0''), (''method'', JString ''starknet_chainId'')]"

definition chainId_null_id :: json where
  "chainId_null_id =
     JObject [(''jsonrpc'', JString ''2.0''), (''method'', JString ''starknet_chainId''),
              (''id'', JNull)]"


definition unknown_method_notification :: json where
  "unknown_method_notification =
     JObject [(''jsonrpc'', JString ''2.0''), (''method'', JString ''starknet_unknown'')]"

definition bad_params_notification :: json where
  "bad_params_notification =
     JObject [(''jsonrpc'', JString ''2.0''),
              (''method'', JString ''starknet_getTransactionByHash''),
              (''params'', JArray [])]"

definition old_version_notification :: json where
  "old_version_notification =
     JObject [(''jsonrpc'', JString ''1.0''), (''method'', JString ''starknet_chainId'')]"



definition no_params_json :: json where
  "no_params_json =
     JObject [(''jsonrpc'', JString ''2.0''),
              (''method'', JString ''starknet_getTransactionByHash''),
              (''id'', JNumber ''1'')]"

definition no_params_request :: request where
  "no_params_request =
     \<lparr>request.Version = ''2.0'', Method = ''starknet_getTransactionByHash'', Params = JNull,
      ID = JNumber ''1''\<rparr>"

section \<open>Transaction hashing\<close>

text \<open>
  C1. A Declare transaction of version 2 hashes to the length-suffixed Pedersen array
  of "declare", 2, the sender address, 0, the array hash of the class hash, the
  maximal fee, the chain identifier, the nonce and the compiled class hash. In
  particular, for sender 1, class hash 2, maximal fee 3, nonce 4 and compiled class
  hash 5 on MAINNET it is the array hash of "declare", 2, 1, 0, P*(2), 3, the chain
  identifier of "SN_MAIN", 4, 5.
\<close>

theorem declare_v2_hash:
  "(DeclareTransaction.Version d = 2 \<longrightarrow>
      declareTransactionHash P d n =
        Inr (PedersenArray P
          [SetBytes ''declare'', 2, DeclareTransaction.SenderAddress d, 0,
           PedersenArray P [DeclareTransaction.ClassHash d],
           DeclareTransaction.MaxFee d, ChainID n, DeclareTransaction.Nonce d,
           DeclareTransaction.CompiledClassHash d]))
   \<and> declareTransactionHash P
         \<lparr>DeclareTransaction.TransactionHash = h, ClassHash = 2, SenderAddress = 1, MaxFee = 3,
          TransactionSignature = sig, Nonce = 4, Version = 2, CompiledClassHash = 5\<rparr> MAINNET =
       Inr (PedersenArray P
         [SetBytes ''declare'', 2, 1, 0, PedersenArray P [2], 3, SetBytes ''SN_MAIN'', 4, 5])"
  by (simp add: declareTransactionHash_def IsZero_def IsOne_def Equal_def SetUint64_def
      declareFelt_def)

theorem declare_v2_hash_witness:
  "DeclareTransaction.Version declare_v2_example = 2
   \<and> declareTransactionHash sample_hash declare_v2_example MAINNET =
       Inr (PedersenArray sample_hash
         [SetBytes ''declare'', 2, 1, 0, PedersenArray sample_hash [2], 3,
          SetBytes ''SN_MAIN'', 4, 5])"
  using declare_v2_hash [of declare_v2_example sample_hash MAINNET]
  by (simp add: declare_v2_example_def)

text \<open>
  C2. An L1 handler transaction of version 0 without a nonce hashes to its declared
  hash, and so never fails verification; with a nonce it hashes to the array hash of
  "l1_handler", 0, the contract address, the entry point selector, the array hash of
  the call data, 0, the chain identifier and the nonce. For any other version hashing
  fails with the invalid-version error for the L1 handler type and that version.
\<close>

theorem l1_handler_hash:
  "(L1HandlerTransaction.Version l = 0 \<and> L1HandlerTransaction.Nonce l = None \<longrightarrow>
      l1HandlerTransactionHash P l n = Inr (L1HandlerTransaction.TransactionHash l)
      \<and> transactionHash P (L1Handler l) n = Inr (Hash (L1Handler l))
      \<and> verifyTransactionHash P (L1Handler l) n = None)
   \<and> (L1HandlerTransaction.Version l = 0 \<and> L1HandlerTransaction.Nonce l = Some nonce \<longrightarrow>
      l1HandlerTransactionHash P l n =
        Inr (PedersenArray P
          [SetBytes ''l1_handler'', 0, L1HandlerTransaction.ContractAddress l,
           L1HandlerTransaction.EntryPointSelector l,
           PedersenArray P (L1HandlerTransaction.CallData l), 0, ChainID n, nonce]))
   \<and> (L1HandlerTransaction.Version l \<noteq> 0 \<longrightarrow>
      l1HandlerTransactionHash P l n =
        Inl (InvalidTransactionVersion L1HandlerTransactionT (L1HandlerTransaction.Version l))
      \<and> transactionHash P (L1Handler l) n =
        Inl (InvalidTransactionVersion L1HandlerTransactionT (L1HandlerTransaction.Version l)))"
  by (simp add: l1HandlerTransactionHash_def verifyTransactionHash_def IsZero_def Equal_def
      l1HandlerFelt_def errInvalidTransactionVersion_def)

theorem l1_handler_hash_witness:
  "l1HandlerTransactionHash sample_hash l1_handler_no_nonce GOERLI = Inr 21
   \<and> verifyTransactionHash sample_hash (L1Handler l1_handler_no_nonce) GOERLI = None
   \<and> l1HandlerTransactionHash sample_hash l1_handler_nonce GOERLI =
       Inr (PedersenArray sample_hash
         [SetBytes ''l1_handler'', 0, 1, 2, PedersenArray sample_hash [3, 4], 0,
          SetBytes ''SN_GOERLI'', 6])
   \<and> l1HandlerTransactionHash sample_hash l1_handler_v1 GOERLI =
       Inl (InvalidTransactionVersion L1HandlerTransactionT 1)"
  using l1_handler_hash [where l = l1_handler_no_nonce and P = sample_hash and n = GOERLI]
    l1_handler_hash [where l = l1_handler_nonce and nonce = 6 and P = sample_hash and n = GOERLI]
    l1_handler_hash [where l = l1_handler_v1 and P = sample_hash and n = GOERLI]
  by (simp add: l1_handler_no_nonce_def l1_handler_nonce_def l1_handler_v1_def)

section \<open>Verification of a list of transactions\<close>

lemma verifyTransactionHash_mismatch:
  "verifyTransactionHash P tx n =
     (if mismatch P n tx
      then Some (CantVerifyTransactionHashError tx
                   (case transactionHash P tx n of Inl err \<Rightarrow> Some err | Inr h \<Rightarrow> None) None)
      else None)"
  by (simp add: verifyTransactionHash_def mismatch_def Equal_def split: sum.splits)

lemma chain_length_Unwrap:
  "chain_length e = (case Unwrap e of None \<Rightarrow> 1 | Some e' \<Rightarrow> Suc (chain_length e'))"
  by (cases e rule: chain_length.cases) (simp_all add: Unwrap_def)

lemma chain_transactions_Unwrap:
  "chain_transactions e =
     t e # (case Unwrap e of None \<Rightarrow> [] | Some e' \<Rightarrow> chain_transactions e')"
  by (cases e rule: chain_transactions.cases) (simp_all add: Unwrap_def)

lemma loop_chain_length:
  "(case verifyTransactions_loop P txs n head of None \<Rightarrow> 0 | Some e \<Rightarrow> chain_length e) =
     length (filter (mismatch P n) txs) + (case head of None \<Rightarrow> 0 | Some e \<Rightarrow> chain_length e)"
proof (induction txs arbitrary: head)
  case Nil
  show ?case by simp
next
  case (Cons tx txs)
  show ?case
  proof (cases "mismatch P n tx")
    case True
    then show ?thesis
      using Cons.IH by (cases head) (simp_all add: verifyTransactionHash_mismatch)
  next
    case False
    then show ?thesis
      using Cons.IH by (simp add: verifyTransactionHash_mismatch)
  qed
qed

lemma loop_chain_transactions:
  "(case verifyTransactions_loop P txs n head of None \<Rightarrow> [] | Some e \<Rightarrow> chain_transactions e) =
     rev (filter (mismatch P n) txs)
       @ (case head of None \<Rightarrow> [] | Some e \<Rightarrow> chain_transactions e)"
proof (induction txs arbitrary: head)
  case Nil
  show ?case by simp
next
  case (Cons tx txs)
  show ?case
  proof (cases "mismatch P n tx")
    case True
    then show ?thesis
      using Cons.IH by (cases head) (simp_all add: verifyTransactionHash_mismatch)
  next
    case False
    then show ?thesis
      using Cons.IH by (simp add: verifyTransactionHash_mismatch)
  qed
qed

lemma chain_length_pos: "0 < chain_length e"
  by (cases e rule: chain_length.cases) simp_all

lemma chain_transactions_hd: "hd (chain_transactions e) = t e"
  by (cases e rule: chain_transactions.cases) simp_all

text \<open>
  C3. \<open>verifyTransactions\<close> looks at every transaction of the list: it returns no
  error exactly when no transaction mismatches, and otherwise the chain it returns has
  as many nodes as there are transactions in the list whose recomputed hash differs
  from the declared one or whose hashing failed.
\<close>

theorem verifyTransactions_reports_every_mismatch:
  "(verifyTransactions P txs n = None \<longleftrightarrow> (\<forall>tx \<in> set txs. \<not> mismatch P n tx))
   \<and> (\<forall>e. verifyTransactions P txs n = Some e \<longrightarrow>
          chain_length e = length (filter (mismatch P n) txs))"
proof -
  have len:
    "(case verifyTransactions P txs n of None \<Rightarrow> 0 | Some e \<Rightarrow> chain_length e) =
       length (filter (mismatch P n) txs)"
    using loop_chain_length [of P txs n None] by (simp add: verifyTransactions_def)
  have "verifyTransactions P txs n = None \<longleftrightarrow> filter (mismatch P n) txs = []"
  proof (cases "verifyTransactions P txs n")
    case None
    with len show ?thesis by simp
  next
    case (Some e)
    with len chain_length_pos [of e] show ?thesis by auto
  qed
  moreover have "filter (mismatch P n) txs = [] \<longleftrightarrow> (\<forall>tx \<in> set txs. \<not> mismatch P n tx)"
    by (simp add: filter_empty_conv)
  ultimately show ?thesis using len by auto
qed

theorem verifyTransactions_reports_every_mismatch_witness:
  "length (filter (mismatch sample_hash MAINNET) example_block) = 3
   \<and> (\<exists>e. verifyTransactions sample_hash example_block MAINNET = Some e \<and> chain_length e = 3)
   \<and> verifyTransactions sample_hash
       [Invoke invoke_v0_example, L1Handler l1_handler_no_nonce] MAINNET = None"
proof -
  have m: "filter (mismatch sample_hash MAINNET) example_block =
      [Declare declare_v3_example, Invoke invoke_v1_example, L1Handler l1_handler_v1]"
    by (simp add: example_block_def mismatch_def invokeTransactionHash_def
        declareTransactionHash_def l1HandlerTransactionHash_def IsZero_def IsOne_def Equal_def
        SetUint64_def invoke_v0_example_def invoke_v1_example_def declare_v3_example_def
        l1_handler_no_nonce_def l1_handler_v1_def PedersenArray_def sample_hash_def
        invokeFelt_def SetBytes_def felt_prime_def)
  have n: "\<forall>tx \<in> set [Invoke invoke_v0_example, L1Handler l1_handler_no_nonce].
      \<not> mismatch sample_hash MAINNET tx"
    by (simp add: mismatch_def invokeTransactionHash_def l1HandlerTransactionHash_def
        IsZero_def invoke_v0_example_def l1_handler_no_nonce_def)
  from m have "verifyTransactions sample_hash example_block MAINNET \<noteq> None"
    using verifyTransactions_reports_every_mismatch [of sample_hash example_block MAINNET]
    by auto
  then obtain e where e: "verifyTransactions sample_hash example_block MAINNET = Some e"
    by auto
  with m have "chain_length e = 3"
    using verifyTransactions_reports_every_mismatch [of sample_hash example_block MAINNET]
    by simp
  with e m n show ?thesis
    using verifyTransactions_reports_every_mismatch
      [of sample_hash "[Invoke invoke_v0_example, L1Handler l1_handler_no_nonce]" MAINNET]
    by simp
qed

lemma Unwrap_times_chain:
  "k < length (chain_transactions e) \<Longrightarrow>
     \<exists>e'. Unwrap_times k e = Some e' \<and> t e' = chain_transactions e ! k"
proof (induction k arbitrary: e)
  case 0
  show ?case by (subst chain_transactions_Unwrap) simp
next
  case (Suc k)
  from Suc.prems
  have "Suc k < length (t e # (case Unwrap e of None \<Rightarrow> [] | Some e' \<Rightarrow> chain_transactions e'))"
    by (subst (asm) chain_transactions_Unwrap)
  then obtain e1 where u: "Unwrap e = Some e1" and k: "k < length (chain_transactions e1)"
    by (cases "Unwrap e") auto
  from Suc.IH [OF k] obtain e' where
    e': "Unwrap_times k e1 = Some e'" "t e' = chain_transactions e1 ! k"
    by auto
  have "chain_transactions e ! Suc k = chain_transactions e1 ! k"
    using u by (subst chain_transactions_Unwrap) simp
  with e' u show ?case by simp
qed

lemma Unwrap_times_end:
  "Unwrap_times (length (chain_transactions e)) e = None"
  by (induction e rule: chain_transactions.induct) (simp_all add: Unwrap_def)

lemma Unwrap_times_Suc:
  "Unwrap_times (Suc j) x = (case Unwrap_times j x of None \<Rightarrow> None | Some y \<Rightarrow> Unwrap y)"
proof (induction j arbitrary: x)
  case 0
  show ?case by (simp split: option.splits)
next
  case (Suc j)
  show ?case
  proof (cases "Unwrap x")
    case None
    then show ?thesis by simp
  next
    case (Some y)
    then have "Unwrap_times (Suc (Suc j)) x = Unwrap_times (Suc j) y" by simp
    also have "\<dots> = (case Unwrap_times j y of None \<Rightarrow> None | Some z \<Rightarrow> Unwrap z)"
      by (rule Suc.IH)
    also have "\<dots> = (case Unwrap_times (Suc j) x of None \<Rightarrow> None | Some z \<Rightarrow> Unwrap z)"
      using Some by simp
    finally show ?thesis .
  qed
qed

text \<open>
  C9. When at least two transactions of the list mismatch, \<open>verifyTransactions\<close>
  returns a chain that lists them in the reverse of the order of the list: its head
  carries the last mismatching transaction, \<open>k\<close> applications of \<open>Unwrap\<close> lead to the
  error that carries the mismatching transaction number \<open>k\<close> from the end, the last of
  them to the first mismatching transaction, and one more application returns nil.
\<close>

theorem verifyTransactions_chain_reversed:
  assumes "2 \<le> length (filter (mismatch P n) txs)"
  shows "\<exists>e. verifyTransactions P txs n = Some e
           \<and> t e = last (filter (mismatch P n) txs)
           \<and> (\<forall>k < length (filter (mismatch P n) txs).
                 \<exists>e'. Unwrap_times k e = Some e'
                      \<and> t e' = rev (filter (mismatch P n) txs) ! k)
           \<and> (\<exists>e'. Unwrap_times (length (filter (mismatch P n) txs) - 1) e = Some e'
                   \<and> t e' = hd (filter (mismatch P n) txs)
                   \<and> Unwrap e' = None)
           \<and> Unwrap_times (length (filter (mismatch P n) txs)) e = None
           \<and> chain_transactions e = rev (filter (mismatch P n) txs)
           \<and> last (chain_transactions e) = hd (filter (mismatch P n) txs)"
proof -
  let ?F = "filter (mismatch P n) txs"
  have txs:
    "(case verifyTransactions P txs n of None \<Rightarrow> [] | Some e \<Rightarrow> chain_transactions e) = rev ?F"
    using loop_chain_transactions [of P txs n None] by (simp add: verifyTransactions_def)
  from assms have ne: "?F \<noteq> []" by auto
  with txs obtain e where e: "verifyTransactions P txs n = Some e"
    by (cases "verifyTransactions P txs n") auto
  with txs have c: "chain_transactions e = rev ?F" by simp
  have "t e = hd (chain_transactions e)" by (simp add: chain_transactions_hd)
  also have "\<dots> = last ?F" using c ne by (simp add: hd_rev)
  finally have head: "t e = last ?F" .
  have walk: "\<exists>e'. Unwrap_times k e = Some e' \<and> t e' = rev ?F ! k" if "k < length ?F" for k
    using Unwrap_times_chain [of k e] that c by simp
  have stop: "Unwrap_times (length ?F) e = None"
    using Unwrap_times_end [of e] c by simp
  have final: "\<exists>e'. Unwrap_times (length ?F - 1) e = Some e' \<and> t e' = hd ?F \<and> Unwrap e' = None"
  proof -
    from ne have lt: "length ?F - 1 < length ?F" by (cases ?F) simp_all
    from walk [OF lt] obtain e' where
      e': "Unwrap_times (length ?F - 1) e = Some e'" "t e' = rev ?F ! (length ?F - 1)"
      by auto
    from ne have "rev ?F ! (length ?F - 1) = hd ?F"
      by (simp add: rev_nth hd_conv_nth)
    with e' have h: "t e' = hd ?F" by simp
    from ne have S: "Suc (length ?F - 1) = length ?F" by (cases ?F) simp_all
    have "Unwrap_times (Suc (length ?F - 1)) e =
        (case Unwrap_times (length ?F - 1) e of None \<Rightarrow> None | Some y \<Rightarrow> Unwrap y)"
      by (rule Unwrap_times_Suc)
    also have "\<dots> = Unwrap e'" by (simp only: e'(1) option.case)
    finally have "Unwrap_times (length ?F) e = Unwrap e'" by (simp only: S)
    with stop have "Unwrap e' = None" by simp
    with e' h show ?thesis by simp
  qed
  have "last (chain_transactions e) = hd ?F"
    using c ne by (simp add: last_rev)
  with e head walk final stop c show ?thesis by simp
qed

theorem verifyTransactions_chain_reversed_witness:
  "\<exists>e. verifyTransactions sample_hash example_block MAINNET = Some e
      \<and> t e = L1Handler l1_handler_v1
      \<and> (\<exists>e1. Unwrap_times 1 e = Some e1 \<and> t e1 = Invoke invoke_v1_example)
      \<and> (\<exists>e2. Unwrap_times 2 e = Some e2 \<and> t e2 = Declare declare_v3_example
               \<and> Unwrap e2 = None)
      \<and> Unwrap_times 3 e = None
      \<and> chain_transactions e =
          [L1Handler l1_handler_v1, Invoke invoke_v1_example, Declare declare_v3_example]"
proof -
  have m: "filter (mismatch sample_hash MAINNET) example_block =
      [Declare declare_v3_example, Invoke invoke_v1_example, L1Handler l1_handler_v1]"
    by (simp add: example_block_def mismatch_def invokeTransactionHash_def
        declareTransactionHash_def l1HandlerTransactionHash_def IsZero_def IsOne_def Equal_def
        SetUint64_def invoke_v0_example_def invoke_v1_example_def declare_v3_example_def
        l1_handler_no_nonce_def l1_handler_v1_def PedersenArray_def sample_hash_def
        invokeFelt_def SetBytes_def felt_prime_def)
  then have "2 \<le> length (filter (mismatch sample_hash MAINNET) example_block)" by simp
  from verifyTransactions_chain_reversed [OF this] obtain e where
    e: "verifyTransactions sample_hash example_block MAINNET = Some e"
    and h: "t e = last (filter (mismatch sample_hash MAINNET) example_block)"
    and w: "\<forall>k < length (filter (mismatch sample_hash MAINNET) example_block).
        \<exists>e'. Unwrap_times k e = Some e'
            \<and> t e' = rev (filter (mismatch sample_hash MAINNET) example_block) ! k"
    and f: "\<exists>e'. Unwrap_times
          (length (filter (mismatch sample_hash MAINNET) example_block) - 1) e = Some e'
        \<and> t e' = hd (filter (mismatch sample_hash MAINNET) example_block)
        \<and> Unwrap e' = None"
    and s: "Unwrap_times (length (filter (mismatch sample_hash MAINNET) example_block)) e = None"
    and c: "chain_transactions e = rev (filter (mismatch sample_hash MAINNET) example_block)"
    by blast
  from w [rule_format, of 1] m
  have 1: "\<exists>e1. Unwrap_times 1 e = Some e1 \<and> t e1 = Invoke invoke_v1_example"
    by (simp add: eval_nat_numeral)
  from f m
  have 2: "\<exists>e2. Unwrap_times 2 e = Some e2 \<and> t e2 = Declare declare_v3_example
      \<and> Unwrap e2 = None"
    by (simp add: eval_nat_numeral)
  from s m have 3: "Unwrap_times 3 e = None" by (simp add: eval_nat_numeral)
  from e h c m 1 2 3 show ?thesis by simp
qed

section \<open>The transaction commitment\<close>

lemma signatureHash_sigHash:
  "(case tx of Invoke itx \<Rightarrow> PedersenArray P (Signature tx) | _ \<Rightarrow> PedersenArray P []) =
     sigHash P tx"
  by (cases tx) (simp_all add: sigHash_def)

lemma upt_0_Suc_shift: "[0 ..< Suc m] = 0 # map Suc [0 ..< m]"
  by (simp add: upt_conv_Cons map_Suc_upt del: upt_Suc)

lemma transactionCommitment_loop_entries:
  "transactionCommitment_loop P put trie i txs =
     put_entries put trie
       (map (\<lambda>j. (SetUint64 (word_of_nat (i + j)), P (Hash (txs ! j)) (sigHash P (txs ! j))))
          [0 ..< length txs])"
proof (induction txs arbitrary: trie i)
  case Nil
  show ?case by simp
next
  case (Cons tx txs)
  have "map (\<lambda>j. (SetUint64 (word_of_nat (i + j)),
                   P (Hash ((tx # txs) ! j)) (sigHash P ((tx # txs) ! j))))
          [0 ..< length (tx # txs)] =
        (SetUint64 (word_of_nat i), P (Hash tx) (sigHash P tx))
        # map (\<lambda>j. (SetUint64 (word_of_nat (Suc i + j)),
                      P (Hash (txs ! j)) (sigHash P (txs ! j))))
            [0 ..< length txs]"
    by (simp add: upt_0_Suc_shift comp_def ac_simps del: upt_Suc)
  then show ?case
    using Cons.IH [of _ "Suc i"]
    by (simp add: signatureHash_sigHash Let_def split: sum.splits del: upt_Suc)
qed

text \<open>
  C4. \<open>transactionCommitment\<close> inserts into the new trie of height 64, for each index
  \<open>i\<close> in order, the key \<open>fromUint64(i)\<close> with the value
  \<open>pedersen(tx.hash(), sigHash)\<close>, where \<open>sigHash\<close> is the array hash of the signature
  when the transaction is an Invoke and the array hash of no elements for every other
  transaction, also for DeployAccount and Declare, which carry a signature; it stops at
  the first insertion that fails and otherwise returns the root.
\<close>

theorem transactionCommitment_inserts:
  "transactionCommitment P newTrie put root txs =
     (case put_entries put (newTrie 64)
             (map (\<lambda>i. (SetUint64 (word_of_nat i),
                         P (Hash (txs ! i))
                           (case txs ! i of
                              Invoke itx \<Rightarrow> PedersenArray P (Signature (txs ! i))
                            | _ \<Rightarrow> PedersenArray P [])))
                [0 ..< length txs]) of
        Inl err \<Rightarrow> Inl err
      | Inr trie \<Rightarrow> root trie)"
  by (simp add: transactionCommitment_def RunOnTempTrie_def commitmentTrieHeight_def
      transactionCommitment_loop_entries signatureHash_sigHash)

theorem transactionCommitment_inserts_witness:
  "transactionCommitment sample_hash (\<lambda>height. []) record_put (\<lambda>log. Inr (length log))
     [Declare declare_v2_example, Invoke invoke_v1_example] = Inr 2
   \<and> transactionCommitment_loop sample_hash record_put [] 0
       [Declare declare_v2_example, Invoke invoke_v1_example] =
     Inr [(0, sample_hash 7 (PedersenArray sample_hash [])),
          (1, sample_hash 32 (PedersenArray sample_hash [5, 6]))]"
  using transactionCommitment_inserts
    [of sample_hash "\<lambda>height. []" record_put "\<lambda>log. Inr (length log)"
      "[Declare declare_v2_example, Invoke invoke_v1_example]"]
  by (simp add: record_put_def SetUint64_def declare_v2_example_def invoke_v1_example_def
      upt_conv_Cons del: upt_Suc)

section \<open>The JSON-RPC dispatcher\<close>

lemma equalFold_keys [simp]:
  "\<not> equalFold ''id'' ''jsonrpc''" "\<not> equalFold ''id'' ''method''"
  "\<not> equalFold ''id'' ''params''" "equalFold ''id'' ''id''"
  "equalFold ''jsonrpc'' ''jsonrpc''"
  "\<not> equalFold ''method'' ''jsonrpc''" "equalFold ''method'' ''method''"
  "\<not> equalFold ''params'' ''jsonrpc''" "\<not> equalFold ''params'' ''method''"
  "equalFold ''params'' ''params''"
  by (simp_all add: equalFold_def to_lower_def)

lemma decode_member_ID:
  "\<not> equalFold k ''id'' \<Longrightarrow>
     request.ID (fst (decode_member st (k, v))) = request.ID (fst st)"
  by (cases st) (simp split: json.splits)

lemma decode_members_ID:
  "\<forall>kv \<in> set members. \<not> equalFold (fst kv) ''id'' \<Longrightarrow>
     request.ID (fst (foldl decode_member st members)) = request.ID (fst st)"
proof (induction members arbitrary: st)
  case Nil
  show ?case by simp
next
  case (Cons kv members)
  obtain k v where kv: "kv = (k, v)" by (cases kv)
  with Cons.prems have "\<not> equalFold k ''id''" by simp
  then have "request.ID (fst (decode_member st (k, v))) = request.ID (fst st)"
    by (rule decode_member_ID)
  with Cons kv show ?case by simp
qed

lemma decode_member_null_id:
  "request.ID (fst st) = JNull \<Longrightarrow> decode_member st (''id'', JNull) = st"
  by (cases st) simp

lemma decode_request_null_id:
  assumes "\<forall>kv \<in> set pre. \<not> equalFold (fst kv) ''id''"
  shows "decode_request (JObject (pre @ (''id'', JNull) # post)) =
         decode_request (JObject (pre @ post))"
proof -
  have "request.ID (fst (foldl decode_member (zero_request, None) pre)) = JNull"
    using decode_members_ID [OF assms] by (simp add: zero_request_def)
  then have "decode_member (foldl decode_member (zero_request, None) pre) (''id'', JNull) =
      foldl decode_member (zero_request, None) pre"
    by (rule decode_member_null_id)
  then show ?thesis by (simp add: decode_request_def)
qed

lemma handleRequest_notification:
  assumes "isSane req = None" and "request.ID req = JNull"
    and "methods s (request.Method req) = Some m"
    and "buildArguments (request.Params req) (Handler m) (Method.Params m) = Done (Inr args)"
    and "Call (Handler m) args = Done tuple"
  shows "handleRequest s req = Done (Inr None)"
  using assms by (simp add: handleRequest_def)

lemma sane_request_is_object:
  assumes "decode_request v = Inr req" and "isSane req = None"
  shows "\<exists>members. v = JObject members"
proof (cases v)
  case JNull
  with assms show ?thesis by (auto simp add: decode_request_def zero_request_def isSane_def)
qed (use assms in \<open>simp_all add: decode_request_def\<close>)

lemma batchElement_notification:
  assumes "decode_request v = Inr req" and "handleRequest s req = Done (Inr None)"
  shows "batchElement s v = Done None"
  using assms by (simp add: batchElement_def)

lemma HandleReader_batch_skip:
  assumes "batchElement s v = Done None"
  shows "HandleReader_batch marshal s (pre @ v # post) batchRes =
         HandleReader_batch marshal s (pre @ post) batchRes"
proof (induction pre arbitrary: batchRes)
  case Nil
  show ?case using assms by simp
next
  case (Cons x pre)
  then show ?case by (simp split: go.splits option.splits sum.splits)
qed

lemma HandleReader_batch_nonempty:
  "elems \<noteq> [] \<Longrightarrow>
     HandleReader marshal s (JSON (JArray elems)) =
       (case HandleReader_batch marshal s elems [] of
          Panic msg \<Rightarrow> Panic msg
        | Done (Inl jsonErr) \<Rightarrow> Done (Inl jsonErr)
        | Done (Inr batchRes) \<Rightarrow>
            if batchRes = [] then Done (Inr NoBytes) else Done (Inr (Array batchRes)))"
  by (simp add: HandleReader_def decode_batch_def split: go.splits sum.splits)

text \<open>
  The path on which \<open>handleRequest\<close> tests the id: a request without an id that passes
  the sanity check, whose method is registered, whose arguments bind and whose handler
  is called gets no response; handled singly no bytes are returned, and in a batch it
  adds nothing to the array of responses.
\<close>

lemma called_notification_suppressed:
  assumes "decode_request v = Inr req" and "request.ID req = JNull"
    and "isSane req = None"
    and "methods s (request.Method req) = Some m"
    and "buildArguments (request.Params req) (Handler m) (Method.Params m) = Done (Inr args)"
    and "Call (Handler m) args = Done tuple"
  shows "HandleReader marshal s (JSON v) = Done (Inr NoBytes)
       \<and> HandleReader_batch marshal s (pre @ v # post) batchRes =
           HandleReader_batch marshal s (pre @ post) batchRes
       \<and> HandleReader marshal s (JSON (JArray (pre @ v # post))) =
           (if pre @ post = [] then Done (Inr NoBytes)
            else HandleReader marshal s (JSON (JArray (pre @ post))))"
proof -
  have h: "handleRequest s req = Done (Inr None)"
    using assms(3,2,4,5,6) by (rule handleRequest_notification)
  obtain members where v: "v = JObject members"
    using sane_request_is_object [OF assms(1,3)] by auto
  have single: "HandleReader marshal s (JSON v) = Done (Inr NoBytes)"
    using assms(1) h by (simp add: HandleReader_def decode_single_def v)
  have skip: "HandleReader_batch marshal s (pre @ v # post) batchRes =
      HandleReader_batch marshal s (pre @ post) batchRes" for batchRes
    using batchElement_notification [OF assms(1) h] by (rule HandleReader_batch_skip)
  have batch: "HandleReader marshal s (JSON (JArray (pre @ v # post))) =
      (if pre @ post = [] then Done (Inr NoBytes)
       else HandleReader marshal s (JSON (JArray (pre @ post))))"
  proof (cases "pre @ post = []")
    case True
    then show ?thesis
      using skip [of "[]"] by (simp add: HandleReader_batch_nonempty)
  next
    case False
    then show ?thesis
      using skip [of "[]"] by (simp add: HandleReader_batch_nonempty)
  qed
  from single skip batch show ?thesis by simp
qed


text \<open>
  C5. A request without an id is a notification and is to get no response, alone or in
  a batch, also when its method is not registered or its parameters do not bind. The
  code does not do this: for a request without an id that passes the sanity check,
  \<open>handleRequest\<close> returns the response -32601 when the method is not registered and
  the response -32602 when the arguments do not bind, both with a null id and both
  before it tests the id; the response is returned as bytes when the request is handled
  singly and is an element of the array when it is handled in a batch.
\<close>

theorem notification_error_answered:
  assumes "decode_request v = Inr req" and "isSane req = None"
    and "request.ID req = JNull"
  shows "(methods s (request.Method req) = None \<longrightarrow>
            handleRequest s req =
              Done (Inr (Some \<lparr>response.Version = ''2.0'', Result = JNull,
                Error = Some \<lparr>Code = - 32601, Message = ''Method Not Found'', Data = JNull\<rparr>,
                ID = JNull\<rparr>))
            \<and> HandleReader marshal s (JSON v) =
                marshal_response marshal \<lparr>response.Version = ''2.0'', Result = JNull,
                  Error = Some \<lparr>Code = - 32601, Message = ''Method Not Found'', Data = JNull\<rparr>,
                  ID = JNull\<rparr>
            \<and> batchElement s v =
                Done (Some \<lparr>response.Version = ''2.0'', Result = JNull,
                  Error = Some \<lparr>Code = - 32601, Message = ''Method Not Found'', Data = JNull\<rparr>,
                  ID = JNull\<rparr>))
       \<and> (methods s (request.Method req) = Some m
           \<and> buildArguments (request.Params req) (Handler m) (Method.Params m) = Done (Inl err)
           \<longrightarrow>
            handleRequest s req =
              Done (Inr (Some \<lparr>response.Version = ''2.0'', Result = JNull,
                Error = Some \<lparr>Code = - 32602, Message = ''Invalid Params'', Data = JString err\<rparr>,
                ID = JNull\<rparr>))
            \<and> HandleReader marshal s (JSON v) =
                marshal_response marshal \<lparr>response.Version = ''2.0'', Result = JNull,
                  Error = Some \<lparr>Code = - 32602, Message = ''Invalid Params'', Data = JString err\<rparr>,
                  ID = JNull\<rparr>
            \<and> batchElement s v =
                Done (Some \<lparr>response.Version = ''2.0'', Result = JNull,
                  Error = Some \<lparr>Code = - 32602, Message = ''Invalid Params'', Data = JString err\<rparr>,
                  ID = JNull\<rparr>))"
proof -
  obtain members where v: "v = JObject members"
    using sane_request_is_object [OF assms(1,2)] by auto
  have single: "HandleReader marshal s (JSON v) =
      (case handleRequest s req of
         Panic msg \<Rightarrow> Panic msg
       | Done (Inl handleErr) \<Rightarrow>
           marshal_response marshal
             \<lparr>response.Version = ''2.0'', Result = JNull,
              Error = Some (rpcErr InvalidRequest (JString (error_text handleErr))),
              ID = (if handleErr \<noteq> ErrInvalidID then request.ID req else JNull)\<rparr>
       | Done (Inr None) \<Rightarrow> Done (Inr NoBytes)
       | Done (Inr (Some resObject)) \<Rightarrow> marshal_response marshal resObject)"
    using assms(1)
    by (simp add: HandleReader_def decode_single_def v split: go.splits sum.splits option.splits)
  have unknown: "handleRequest s req =
      Done (Inr (Some \<lparr>response.Version = ''2.0'', Result = JNull,
        Error = Some \<lparr>Code = - 32601, Message = ''Method Not Found'', Data = JNull\<rparr>,
        ID = JNull\<rparr>))"
    if "methods s (request.Method req) = None"
    using that assms(2,3)
    by (simp add: handleRequest_def rpcErr_def MethodNotFound_def InvalidJSON_def
        InvalidRequest_def)
  have unbound: "handleRequest s req =
      Done (Inr (Some \<lparr>response.Version = ''2.0'', Result = JNull,
        Error = Some \<lparr>Code = - 32602, Message = ''Invalid Params'', Data = JString err\<rparr>,
        ID = JNull\<rparr>))"
    if "methods s (request.Method req) = Some m"
      and "buildArguments (request.Params req) (Handler m) (Method.Params m) = Done (Inl err)"
    using that assms(2,3)
    by (simp add: handleRequest_def rpcErr_def MethodNotFound_def InvalidJSON_def
        InvalidRequest_def InvalidParams_def)
  from unknown unbound show ?thesis
    using assms(1) by (simp add: single batchElement_def)
qed

theorem notification_error_answered_witness:
  "HandleReader marshal_id example_server (JSON unknown_method_notification) =
     Done (Inr (Object \<lparr>response.Version = ''2.0'', Result = JNull,
       Error = Some \<lparr>Code = - 32601, Message = ''Method Not Found'', Data = JNull\<rparr>,
       ID = JNull\<rparr>))
   \<and> HandleReader marshal_id example_server (JSON (JArray [unknown_method_notification])) =
     Done (Inr (Array [\<lparr>response.Version = ''2.0'', Result = JNull,
       Error = Some \<lparr>Code = - 32601, Message = ''Method Not Found'', Data = JNull\<rparr>,
       ID = JNull\<rparr>]))
   \<and> HandleReader marshal_id example_server (JSON bad_params_notification) =
     Done (Inr (Object \<lparr>response.Version = ''2.0'', Result = JNull,
       Error = Some \<lparr>Code = - 32602, Message = ''Invalid Params'',
                     Data = JString ''missing/unexpected params in list''\<rparr>,
       ID = JNull\<rparr>))
   \<and> HandleReader marshal_id example_server (JSON (JArray [bad_params_notification])) =
     Done (Inr (Array [\<lparr>response.Version = ''2.0'', Result = JNull,
       Error = Some \<lparr>Code = - 32602, Message = ''Invalid Params'',
                     Data = JString ''missing/unexpected params in list''\<rparr>,
       ID = JNull\<rparr>]))"
proof -
  let ?u = "\<lparr>request.Version = ''2.0'', Method = ''starknet_unknown'', Params = JNull,
              ID = JNull\<rparr>"
  let ?b = "\<lparr>request.Version = ''2.0'', Method = ''starknet_getTransactionByHash'',
              Params = JArray [], ID = JNull\<rparr>"
  have du: "decode_request unknown_method_notification = Inr ?u"
    by (simp add: unknown_method_notification_def decode_request_def zero_request_def)
  have db: "decode_request bad_params_notification = Inr ?b"
    by (simp add: bad_params_notification_def decode_request_def zero_request_def)
  have su: "isSane ?u = None" and sb: "isSane ?b = None"
    by (simp_all add: isSane_def)
  have iu: "request.ID ?u = JNull" and ib: "request.ID ?b = JNull"
    by simp_all
  have mu: "methods example_server (request.Method ?u) = None"
    by (simp add: example_server_def)
  have mb: "methods example_server (request.Method ?b) = Some getTransactionByHash_method
      \<and> buildArguments (request.Params ?b) (Handler getTransactionByHash_method)
          (Method.Params getTransactionByHash_method) =
        Done (Inl ''missing/unexpected params in list'')"
    by (simp add: example_server_def buildArguments_def NumIn_def getTransactionByHash_method_def)
  note u = notification_error_answered [OF du su iu, where s = example_server
      and marshal = marshal_id, THEN conjunct1, THEN mp, OF mu]
  note b = notification_error_answered [OF db sb ib, where s = example_server
      and marshal = marshal_id, THEN conjunct2, THEN mp, OF mb]
  have ne: "[unknown_method_notification] \<noteq> []" "[bad_params_notification] \<noteq> []"
    by simp_all
  from u b show ?thesis
    by (simp add: HandleReader_batch_nonempty [OF ne(1)] HandleReader_batch_nonempty [OF ne(2)]
        marshal_response_def marshal_id_def)
qed






text \<open>
  C7, as the code has it. The error object that \<open>rpcErr\<close> makes for each of the five
  codes carries the message "Parse error" for -32700, "Invalid Request" for -32600,
  "Method Not Found" for -32601, "Invalid Params" for -32602 and "Internal Error" for
  -32603, with the data it was given.
\<close>

theorem rpcErr_messages:
  "rpcErr (- 32700) data = \<lparr>Code = - 32700, Message = ''Parse error'', Data = data\<rparr>
   \<and> rpcErr (- 32600) data = \<lparr>Code = - 32600, Message = ''Invalid Request'', Data = data\<rparr>
   \<and> rpcErr (- 32601) data = \<lparr>Code = - 32601, Message = ''Method Not Found'', Data = data\<rparr>
   \<and> rpcErr (- 32602) data = \<lparr>Code = - 32602, Message = ''Invalid Params'', Data = data\<rparr>
   \<and> rpcErr (- 32603) data = \<lparr>Code = - 32603, Message = ''Internal Error'', Data = data\<rparr>"
  by (simp add: rpcErr_def InvalidJSON_def InvalidRequest_def MethodNotFound_def
      InvalidParams_def InternalError_def)

theorem rpcErr_messages_witness:
  "Message (rpcErr (- 32601) JNull) = ''Method Not Found''
   \<and> Code (rpcErr (- 32700) (JString ''EOF'')) = - 32700"
  using rpcErr_messages [of JNull] rpcErr_messages [of "JString ''EOF''"] by simp

text \<open>
  C7, as stated, fails: three of the messages differ in their capital letters from the
  strings of the JSON-RPC 2.0 specification.
\<close>

theorem rpcErr_canonical_message_counterexample:
  "Message (rpcErr (- 32601) JNull) \<noteq> ''Method not found''
   \<and> Message (rpcErr (- 32602) JNull) \<noteq> ''Invalid params''
   \<and> Message (rpcErr (- 32603) JNull) \<noteq> ''Internal error''"
  by (simp add: rpcErr_def InvalidJSON_def InvalidRequest_def MethodNotFound_def
      InvalidParams_def InternalError_def)

lemma RegisterMethod_arity:
  "RegisterMethod s m = Inr s' \<Longrightarrow>
     methods s' (Method.Name m) = Some m \<and> NumIn (Handler m) = length (Method.Params m)"
  by (auto simp add: RegisterMethod_def Let_def split: if_splits)

text \<open>
  C8. For a method in the registry that declares at least one parameter (registration
  has checked that the handler takes as many), a request that passes the sanity check
  and has no params is not answered with Invalid Params: \<open>buildArguments\<close> returns no
  arguments and no error, and the handler is called with no argument, which is a panic
  of \<^verbatim>\<open>reflect.Value.Call\<close> for too few arguments; no response is made.
\<close>

theorem absent_params_reach_call:
  assumes "isSane req = None" and "request.Params req = JNull"
    and "methods s (request.Method req) = Some m"
    and "Method.Params m \<noteq> []"
    and "NumIn (Handler m) = length (Method.Params m)"
  shows "buildArguments (request.Params req) (Handler m) (Method.Params m) = Done (Inr [])
       \<and> Call (Handler m) [] = Panic ''reflect: Call with too few input arguments''
       \<and> handleRequest s req = Panic ''reflect: Call with too few input arguments''
       \<and> (decode_single reader = Inr req \<and> \<not> isBatch reader \<longrightarrow>
            HandleReader marshal s reader = Panic ''reflect: Call with too few input arguments'')"
proof -
  have b: "buildArguments (request.Params req) (Handler m) (Method.Params m) = Done (Inr [])"
    using assms(2) by (simp add: buildArguments_def)
  have c: "Call (Handler m) [] = Panic ''reflect: Call with too few input arguments''"
    using assms(4,5) by (simp add: Call_def)
  have h: "handleRequest s req = Panic ''reflect: Call with too few input arguments''"
    using assms(1,3) b c by (simp add: handleRequest_def)
  then show ?thesis using b c by (simp add: HandleReader_def)
qed

theorem absent_params_reach_call_witness:
  "RegisterMethod NewServer getTransactionByHash_method =
     Inr \<lparr>methods = [''starknet_getTransactionByHash'' \<mapsto> getTransactionByHash_method]\<rparr>
   \<and> buildArguments JNull (Handler getTransactionByHash_method)
       (Method.Params getTransactionByHash_method) = Done (Inr [])
   \<and> handleRequest
       \<lparr>methods = [''starknet_getTransactionByHash'' \<mapsto> getTransactionByHash_method]\<rparr>
       no_params_request = Panic ''reflect: Call with too few input arguments''
   \<and> HandleReader marshal_id
       \<lparr>methods = [''starknet_getTransactionByHash'' \<mapsto> getTransactionByHash_method]\<rparr>
       (JSON no_params_json) = Panic ''reflect: Call with too few input arguments''"
proof -
  let ?s = "\<lparr>methods = [''starknet_getTransactionByHash'' \<mapsto> getTransactionByHash_method]\<rparr>"
  have r: "RegisterMethod NewServer getTransactionByHash_method = Inr ?s"
    by (simp add: RegisterMethod_def NewServer_def getTransactionByHash_method_def NumIn_def)
  have 1: "isSane no_params_request = None"
    by (simp add: isSane_def no_params_request_def)
  have 2: "request.Params no_params_request = JNull"
    by (simp add: no_params_request_def)
  have 3: "methods ?s (request.Method no_params_request) = Some getTransactionByHash_method"
    by (simp add: no_params_request_def)
  have 4: "Method.Params getTransactionByHash_method \<noteq> []"
    by (simp add: getTransactionByHash_method_def)
  have 5: "NumIn (Handler getTransactionByHash_method) =
      length (Method.Params getTransactionByHash_method)"
    using RegisterMethod_arity [OF r] by simp
  have 6: "decode_single (JSON no_params_json) = Inr no_params_request
      \<and> \<not> isBatch (JSON no_params_json)"
    by (simp add: decode_single_def decode_request_def zero_request_def no_params_json_def
        no_params_request_def)
  from absent_params_reach_call [OF 1 2 3 4 5, where reader = "JSON no_params_json"
      and marshal = marshal_id] r 2 6
  show ?thesis by simp
qed

text \<open>
  C10. A request object whose member \<open>id\<close> is \<^verbatim>\<open>null\<close> is decoded to the same request
  as the object without that member, so the server treats the two alike, alone and in
  a batch. The id of the decoded request is nil: the sanity check does not reject it
  as an invalid id, and when the request is sane, its method is registered, its
  arguments bind and the handler is called, it is handled as a notification and no
  response is made.
\<close>

theorem null_id_treated_as_absent:
  assumes "\<forall>kv \<in> set (pre @ post). \<not> equalFold (fst kv) ''id''"
  shows "decode_request (JObject (pre @ (''id'', JNull) # post)) =
           decode_request (JObject (pre @ post))
       \<and> HandleReader marshal s (JSON (JObject (pre @ (''id'', JNull) # post))) =
           HandleReader marshal s (JSON (JObject (pre @ post)))
       \<and> batchElement s (JObject (pre @ (''id'', JNull) # post)) =
           batchElement s (JObject (pre @ post))
       \<and> (decode_request (JObject (pre @ (''id'', JNull) # post)) = Inr req \<longrightarrow>
            request.ID req = JNull
            \<and> isSane req \<noteq> Some ErrInvalidID
            \<and> (isSane req = None \<and> methods s (request.Method req) = Some m
                \<and> buildArguments (request.Params req) (Handler m) (Method.Params m) =
                    Done (Inr args)
                \<and> Call (Handler m) args = Done tuple \<longrightarrow>
                  handleRequest s req = Done (Inr None)
                  \<and> HandleReader marshal s (JSON (JObject (pre @ (''id'', JNull) # post))) =
                      Done (Inr NoBytes)))"
proof -
  from assms have pre: "\<forall>kv \<in> set pre. \<not> equalFold (fst kv) ''id''" by simp
  have d: "decode_request (JObject (pre @ (''id'', JNull) # post)) =
      decode_request (JObject (pre @ post))"
    using pre by (rule decode_request_null_id)
  have single: "HandleReader marshal s (JSON (JObject (pre @ (''id'', JNull) # post))) =
      HandleReader marshal s (JSON (JObject (pre @ post)))"
    using d by (simp add: HandleReader_def decode_single_def)
  have batch: "batchElement s (JObject (pre @ (''id'', JNull) # post)) =
      batchElement s (JObject (pre @ post))"
    using d by (simp add: batchElement_def)
  have rest: "request.ID req = JNull \<and> isSane req \<noteq> Some ErrInvalidID
      \<and> (isSane req = None \<and> methods s (request.Method req) = Some m
          \<and> buildArguments (request.Params req) (Handler m) (Method.Params m) = Done (Inr args)
          \<and> Call (Handler m) args = Done tuple \<longrightarrow>
            handleRequest s req = Done (Inr None)
            \<and> HandleReader marshal s (JSON (JObject (pre @ (''id'', JNull) # post))) =
                Done (Inr NoBytes))"
    if r: "decode_request (JObject (pre @ (''id'', JNull) # post)) = Inr req"
  proof -
    from r d have "decode_request (JObject (pre @ post)) = Inr req" by simp
    then have "req = fst (foldl decode_member (zero_request, None) (pre @ post))"
      by (auto simp add: decode_request_def split: prod.splits option.splits)
    then have id: "request.ID req = JNull"
      using decode_members_ID [OF assms, of "(zero_request, None)"]
      by (simp add: zero_request_def)
    then have sane: "isSane req \<noteq> Some ErrInvalidID"
      by (simp add: isSane_def)
    have "handleRequest s req = Done (Inr None)
        \<and> HandleReader marshal s (JSON (JObject (pre @ (''id'', JNull) # post))) =
            Done (Inr NoBytes)"
      if "isSane req = None" and "methods s (request.Method req) = Some m"
        and "buildArguments (request.Params req) (Handler m) (Method.Params m) = Done (Inr args)"
        and "Call (Handler m) args = Done tuple"
    proof -
      have "handleRequest s req = Done (Inr None)"
        using that(1) id that(2,3,4) by (rule handleRequest_notification)
      then show ?thesis using r by (simp add: HandleReader_def decode_single_def)
    qed
    with id sane show ?thesis by blast
  qed
  from d single batch rest show ?thesis by blast
qed

theorem null_id_treated_as_absent_witness:
  "decode_request chainId_null_id = decode_request chainId_notification
   \<and> HandleReader marshal_id example_server (JSON chainId_null_id) = Done (Inr NoBytes)
   \<and> HandleReader marshal_id example_server (JSON chainId_notification) = Done (Inr NoBytes)"
proof -
  let ?pre = "[(''jsonrpc'', JString ''2.0''), (''method'', JString ''starknet_chainId'')]"
  let ?req = "\<lparr>request.Version = ''2.0'', Method = ''starknet_chainId'', Params = JNull,
                ID = JNull\<rparr>"
  have a: "\<forall>kv \<in> set (?pre @ []). \<not> equalFold (fst kv) ''id''"
    by (simp add: equalFold_def to_lower_def)
  have n: "chainId_null_id = JObject (?pre @ (''id'', JNull) # [])"
    and p: "chainId_notification = JObject (?pre @ [])"
    by (simp_all add: chainId_null_id_def chainId_notification_def)
  have r: "decode_request (JObject (?pre @ (''id'', JNull) # [])) = Inr ?req"
    by (simp add: decode_request_def zero_request_def)
  have 2: "isSane ?req = None" by (simp add: isSane_def)
  have 3: "methods example_server (request.Method ?req) = Some chainId_method"
    by (simp add: example_server_def)
  have 4: "buildArguments (request.Params ?req) (Handler chainId_method)
      (Method.Params chainId_method) = Done (Inr [])"
    by (simp add: buildArguments_def)
  have 5: "Call (Handler chainId_method) [] = Done (JString ''0x534e5f4d41494e'', None)"
    by (simp add: Call_def NumIn_def chainId_method_def)
  note t = null_id_treated_as_absent [OF a, where req = ?req and s = example_server
      and m = chainId_method and args = "[]" and marshal = marshal_id
      and tuple = "(JString ''0x534e5f4d41494e'', None)"]
  have A: "decode_request (JObject (?pre @ (''id'', JNull) # [])) =
      decode_request (JObject (?pre @ []))"
    using t by blast
  have B: "HandleReader marshal_id example_server (JSON (JObject (?pre @ (''id'', JNull) # []))) =
      Done (Inr NoBytes)"
    using t r 2 3 4 5 by blast
  have C: "HandleReader marshal_id example_server (JSON (JObject (?pre @ (''id'', JNull) # []))) =
      HandleReader marshal_id example_server (JSON (JObject (?pre @ [])))"
    using t by blast
  from A B C show ?thesis unfolding n p by simp
qed

end
